theory Spec2Isabelle
  imports Main
begin

section \<open>JavaScript values\<close>

text \<open>
  The values that flow through \<^verbatim>\<open>src/lib/pool.js\<close>. A \<open>BigNumber\<close> is the library's
  arbitrary-precision integer object, an object literal is a list of properties in
  insertion order (a lookup takes the first binding of a key). \<open>JNum\<close> covers the
  integral JavaScript numbers only.
\<close>

datatype jsval =
    Undefined
  | Null
  | JBool bool
  | JNum int
  | JStr string
  | BigNumber int
  | JObj "(string \<times> jsval) list"

text \<open>JavaScript's ToBoolean: every object is truthy, also the empty one and a zero BigNumber.\<close>

fun truthy :: "jsval \<Rightarrow> bool" where
  "truthy Undefined = False"
| "truthy Null = False"
| "truthy (JBool b) = b"
| "truthy (JNum n) = (n \<noteq> 0)"
| "truthy (JStr s) = (s \<noteq> [])"
| "truthy (BigNumber n) = True"
| "truthy (JObj kvs) = True"

datatype error = NoSigner | TypeError | NumericFault

text \<open>
  Property access \<^verbatim>\<open>v.k\<close> for the data properties the module reads: it throws a TypeError
  on \<^verbatim>\<open>undefined\<close> and \<^verbatim>\<open>null\<close>, and yields \<^verbatim>\<open>undefined\<close> for a property the value
  does not have.
\<close>

fun js_get :: "jsval \<Rightarrow> string \<Rightarrow> error + jsval" where
  "js_get Undefined k = Inl TypeError"
| "js_get Null k = Inl TypeError"
| "js_get (JObj kvs) k = Inr (case map_of kvs k of None \<Rightarrow> Undefined | Some v \<Rightarrow> v)"
| "js_get v k = Inr Undefined"

definition has_property :: "jsval \<Rightarrow> string \<Rightarrow> bool" where
  "has_property v k = (case v of JObj kvs \<Rightarrow> map_of kvs k \<noteq> None | _ \<Rightarrow> False)"

definition sum_bind :: "error + 'a \<Rightarrow> ('a \<Rightarrow> error + 'b) \<Rightarrow> error + 'b" where
  "sum_bind m f = (case m of Inl e \<Rightarrow> Inl e | Inr x \<Rightarrow> f x)"

subsection \<open>BigNumber arithmetic and constants\<close>

definition WeiPerEther :: int where
  "WeiPerEther = 10 ^ 18"

definition MaxUint256 :: int where
  "MaxUint256 = 2 ^ 256 - 1"

text \<open>\<^verbatim>\<open>a.div(b)\<close>: a numeric fault on a zero divisor, otherwise the quotient truncated
  towards zero (\<open>tdiv\<close>).\<close>

definition tdiv :: "int \<Rightarrow> int \<Rightarrow> int" where
  "tdiv a b = sgn a * sgn b * (\<bar>a\<bar> div \<bar>b\<bar>)"

definition bn_div :: "int \<Rightarrow> int \<Rightarrow> error + int" where
  "bn_div a b = (if b = 0 then Inl NumericFault else Inr (tdiv a b))"

section \<open>Calls that leave the module\<close>

text \<open>
  Every call on the contract handle or on a token adapter is recorded in a trace, in the
  order in which the source issues it; \<open>Tx_approve\<close> and \<open>Tx_stake\<close> are the two
  transaction submissions. The value a call resolves to is given by the handle or the
  adapter (a rejected network call is outside the model). A computation is a function
  from the trace so far to its outcome (\<open>Inl\<close> a thrown error, i.e. a rejected promise)
  and the extended trace. Calls awaited jointly with \<^verbatim>\<open>Promise.all\<close> are recorded in the
  order of the array.
\<close>

datatype tokref = LpToken | Reward

datatype event =
    Call_balanceOf jsval
  | Call_totalSupply
  | Call_earned jsval
  | Tx_stake int
  | Token_balanceOf tokref jsval
  | Token_allowances tokref jsval jsval
  | Token_usdValueOf tokref int
  | Token_calcShare tokref int jsval
  | Tx_approve tokref jsval int

fun is_tx :: "event \<Rightarrow> bool" where
  "is_tx (Tx_stake n) = True"
| "is_tx (Tx_approve r s n) = True"
| "is_tx e = False"

type_synonym 'a io = "event list \<Rightarrow> (error + 'a) \<times> event list"

definition io_return :: "'a \<Rightarrow> 'a io" where
  "io_return x = (\<lambda>tr. (Inr x, tr))"

definition io_throw :: "error \<Rightarrow> 'a io" where
  "io_throw e = (\<lambda>tr. (Inl e, tr))"

definition io_bind :: "'a io \<Rightarrow> ('a \<Rightarrow> 'b io) \<Rightarrow> 'b io" where
  "io_bind m f = (\<lambda>tr. case m tr of (Inl e, tr') \<Rightarrow> (Inl e, tr') | (Inr x, tr') \<Rightarrow> f x tr')"

definition io_lift :: "error + 'a \<Rightarrow> 'a io" where
  "io_lift r = (case r of Inl e \<Rightarrow> io_throw e | Inr x \<Rightarrow> io_return x)"

definition emit :: "event \<Rightarrow> 'a \<Rightarrow> 'a io" where
  "emit ev x = (\<lambda>tr. (Inr x, tr @ [ev]))"

text \<open>Calling a member that may be \<^verbatim>\<open>undefined\<close>: a TypeError when it is.\<close>

definition call_member :: "('a \<Rightarrow> 'b io) option \<Rightarrow> 'a \<Rightarrow> 'b io" where
  "call_member m x = (case m of None \<Rightarrow> io_throw TypeError | Some f \<Rightarrow> f x)"

subsection \<open>The connection, the contract handle, the token adapter\<close>

record provider =
  isSigner :: bool
  getAddress :: jsval

datatype abi = AUTO_REWARDS_ABI | REWARDS_ABI

text \<open>
  The contract handle the binding layer builds from an address, an ABI and a connection
  (the superclass of \<open>RewardsPool\<close>). The \<open>q_\<close> fields are what its calls resolve to;
  \<open>q_earned\<close> is absent when the ABI declares no \<^verbatim>\<open>earned\<close>.
\<close>

record handle =
  address :: jsval
  provider :: provider
  q_balanceOf :: "jsval \<Rightarrow> int"
  q_totalSupply :: int
  q_earned :: "(jsval \<Rightarrow> int) option"
  q_stake :: "int \<Rightarrow> jsval"

definition balanceOf :: "'z handle_scheme \<Rightarrow> jsval \<Rightarrow> int io" where
  "balanceOf h a = emit (Call_balanceOf a) (q_balanceOf h a)"

definition totalSupply :: "'z handle_scheme \<Rightarrow> int io" where
  "totalSupply h = emit Call_totalSupply (q_totalSupply h)"

definition earned :: "'z handle_scheme \<Rightarrow> (jsval \<Rightarrow> int io) option" where
  "earned h = map_option (\<lambda>f a. emit (Call_earned a) (f a)) (q_earned h)"

definition stake :: "'z handle_scheme \<Rightarrow> int \<Rightarrow> jsval io" where
  "stake h n = emit (Tx_stake n) (q_stake h n)"

text \<open>
  The token adapter of \<^verbatim>\<open>./tokens.js\<close>, through the interface the pool uses.
  \<open>tk_underlyingBalanceOf\<close> says whether the adapter has the member
  \<^verbatim>\<open>underlyingBalanceOf\<close>; \<open>tk_calcShare\<close> is optional.
\<close>

record token =
  tk_balanceOf :: "jsval \<Rightarrow> int"
  tk_allowances :: "jsval \<Rightarrow> jsval \<Rightarrow> int"
  tk_usdValueOf :: "int \<Rightarrow> int"
  tk_calcShare :: "(int \<Rightarrow> jsval \<Rightarrow> int) option"
  tk_underlyingBalanceOf :: bool

definition token_balanceOf :: "tokref \<Rightarrow> token \<Rightarrow> jsval \<Rightarrow> int io" where
  "token_balanceOf r t a = emit (Token_balanceOf r a) (tk_balanceOf t a)"

definition token_allowances :: "tokref \<Rightarrow> token \<Rightarrow> jsval \<Rightarrow> jsval \<Rightarrow> int io" where
  "token_allowances r t owner spender =
     emit (Token_allowances r owner spender) (tk_allowances t owner spender)"

definition token_usdValueOf :: "tokref \<Rightarrow> token \<Rightarrow> int \<Rightarrow> int io" where
  "token_usdValueOf r t n = emit (Token_usdValueOf r n) (tk_usdValueOf t n)"

definition token_calcShare :: "tokref \<Rightarrow> token \<Rightarrow> int \<Rightarrow> jsval \<Rightarrow> int io" where
  "token_calcShare r t n passthrough =
     (case tk_calcShare t of
        None \<Rightarrow> io_throw TypeError
      | Some f \<Rightarrow> emit (Token_calcShare r n passthrough) (f n passthrough))"

definition token_approve :: "tokref \<Rightarrow> token \<Rightarrow> jsval \<Rightarrow> int \<Rightarrow> unit io" where
  "token_approve r t spender n = emit (Tx_approve r spender n) ()"

text \<open>
  What the module imports: the binding layer's constructor, \<^verbatim>\<open>Token.fromAsset\<close>, the
  registry's \<^verbatim>\<open>isAddressActive\<close> and the library's \<^verbatim>\<open>formatUnits\<close>.
\<close>

record externals =
  Contract :: "jsval \<Rightarrow> abi \<Rightarrow> provider \<Rightarrow> handle"
  Token_fromAsset :: "jsval \<Rightarrow> provider \<Rightarrow> token"
  isAddressActive :: "jsval \<Rightarrow> bool"
  utils_formatUnits :: "int \<Rightarrow> nat \<Rightarrow> string"

section \<open>RewardsPool\<close>

record rpool = handle +
  name :: jsval
  descriptor :: jsval
  lptoken :: token
  reward :: token
  unstakedBalance :: "jsval \<Rightarrow> int io"
  stakedBalance :: "jsval \<Rightarrow> int io"
  underlyingBalanceOf :: "(jsval \<Rightarrow> jsval \<Rightarrow> int io) option"
  earnedRewards :: "(jsval \<Rightarrow> int io) option"

text \<open>
  The pool object: the contract handle it extends, and the members the constructor assigns.
  \<open>descriptor\<close> is the member \<^verbatim>\<open>_pool\<close>. The constructor of the base class leaves
  \<open>earnedRewards\<close> to the subclasses:
  \<^verbatim>\<open>
  constructor(pool, abi, provider) {
    super(pool.address, abi, provider);
    this.name = pool.name ? pool.name : pool.asset.name;
    this._pool = pool
    this.lptoken = Token.fromAsset(pool.asset, provider);
    this.reward = Token.fromAsset(pool.rewardAsset, provider);
    this.unstakedBalance = this.lptoken.balanceOf;
    this.stakedBalance = this.balanceOf;
    if (this.lptoken.underlyingBalanceOf) {
      this.underlyingBalanceOf = async (address, passthrough) => {
        const balance = await this.balanceOf(address);
        return this.lptoken.calcShare(balance, passthrough);
      };
    }
  }
  \<close>
\<close>

definition RewardsPool :: "externals \<Rightarrow> jsval \<Rightarrow> abi \<Rightarrow> provider \<Rightarrow> error + rpool" where
  "RewardsPool ext pool abi prov =
     sum_bind (js_get pool ''address'') (\<lambda>pool_address.
     let super = Contract ext pool_address abi prov in
     sum_bind (js_get pool ''name'') (\<lambda>pool_name.
     sum_bind (if truthy pool_name then Inr pool_name
               else sum_bind (js_get pool ''asset'') (\<lambda>a. js_get a ''name'')) (\<lambda>nm.
     sum_bind (js_get pool ''asset'') (\<lambda>pool_asset.
     sum_bind (js_get pool ''rewardAsset'') (\<lambda>pool_rewardAsset.
     let lp = Token_fromAsset ext pool_asset prov;
         rw = Token_fromAsset ext pool_rewardAsset prov
     in Inr (handle.extend super
          (rpool.fields nm pool lp rw
             (token_balanceOf LpToken lp)
             (balanceOf super)
             (if tk_underlyingBalanceOf lp
              then Some (\<lambda>a passthrough.
                     io_bind (balanceOf super a) (\<lambda>balance.
                       token_calcShare LpToken lp balance passthrough))
              else None)
             None)))))))"

text \<open>
  The two subclasses: \<^verbatim>\<open>async earnedRewards() { return ethers.BigNumber.from(0); }\<close> on
  the auto-compounding pool, \<^verbatim>\<open>this.earnedRewards = this.earned\<close> in the harvest pool's
  constructor.
\<close>

definition AutoCompoundingRewardsPool :: "externals \<Rightarrow> jsval \<Rightarrow> provider \<Rightarrow> error + rpool" where
  "AutoCompoundingRewardsPool ext pool prov =
     sum_bind (RewardsPool ext pool AUTO_REWARDS_ABI prov) (\<lambda>this.
       Inr (this\<lparr>earnedRewards := Some (\<lambda>_. io_return 0)\<rparr>))"

definition HarvestRewardsPool :: "externals \<Rightarrow> jsval \<Rightarrow> provider \<Rightarrow> error + rpool" where
  "HarvestRewardsPool ext pool prov =
     sum_bind (RewardsPool ext pool REWARDS_ABI prov) (\<lambda>this.
       Inr (this\<lparr>earnedRewards := earned this\<rparr>))"

text \<open>
  \<^verbatim>\<open>
  static fromPool(pool, provider) {
    switch (pool.type) {
      case 'autocompounding': return new AutoCompoundingRewardsPool(pool, provider);
      default: return new HarvestRewardsPool(pool, provider);
    }
  }
  \<close>
\<close>

definition fromPool :: "externals \<Rightarrow> jsval \<Rightarrow> provider \<Rightarrow> error + rpool" where
  "fromPool ext pool prov =
     sum_bind (js_get pool ''type'') (\<lambda>pool_type.
       if pool_type = JStr ''autocompounding''
       then AutoCompoundingRewardsPool ext pool prov
       else HarvestRewardsPool ext pool prov)"

subsection \<open>Queries\<close>

definition usdValueOf :: "rpool \<Rightarrow> jsval \<Rightarrow> int io" where
  "usdValueOf this a =
     io_bind (stakedBalance this a) (\<lambda>stakedBalance'.
     io_bind (call_member (earnedRewards this) a) (\<lambda>rewardBalance.
     io_bind (token_usdValueOf LpToken (lptoken this) stakedBalance') (\<lambda>stakedValue.
     io_bind (token_usdValueOf Reward (reward this) rewardBalance) (\<lambda>rewardValue.
     io_return (stakedValue + rewardValue)))))"

definition percentageOfTotal :: "externals \<Rightarrow> rpool \<Rightarrow> int \<Rightarrow> string io" where
  "percentageOfTotal ext this tokens =
     (if tokens = 0 then io_return ''0%''
      else io_bind (totalSupply this) (\<lambda>total.
        if total = 0 then io_return ''0%''
        else io_bind (io_lift (bn_div (tokens * WeiPerEther) total)) (\<lambda>amnt.
          io_return (take 5 (utils_formatUnits ext amnt 16) @ ''%''))))"

definition percentageOwnership :: "externals \<Rightarrow> rpool \<Rightarrow> jsval \<Rightarrow> string io" where
  "percentageOwnership ext this a =
     io_bind (balanceOf this a) (\<lambda>tokens. percentageOfTotal ext this tokens)"

definition isActive :: "externals \<Rightarrow> rpool \<Rightarrow> bool" where
  "isActive ext this = isAddressActive ext (address this)"

text \<open>
  \<open>summary\<close>: the local \<^verbatim>\<open>underlying\<close> answers with the pool's \<open>underlyingBalanceOf\<close> when
  the pool has that member and with \<^verbatim>\<open>{}\<close> otherwise; the record gets the property under the
  test \<^verbatim>\<open>if (underlyingBalanceOf) output.underlyingBalanceOf = underlyingBalanceOf\<close>.
\<close>

definition summary :: "externals \<Rightarrow> rpool \<Rightarrow> jsval \<Rightarrow> jsval io" where
  "summary ext this a =
     (let underlying = (\<lambda>a'.
            case underlyingBalanceOf this of
              Some f \<Rightarrow> io_bind (f a' Undefined) (\<lambda>v. io_return (BigNumber v))
            | None \<Rightarrow> io_return (JObj []))
      in
      io_bind (stakedBalance this a) (\<lambda>stakedBalance'.
      io_bind (unstakedBalance this a) (\<lambda>unstakedBalance'.
      io_bind (call_member (earnedRewards this) a) (\<lambda>earnedRewards'.
      io_bind (underlying a) (\<lambda>underlyingBalanceOf'.
      io_bind (percentageOwnership ext this a) (\<lambda>percentageOwnership'.
      io_bind (usdValueOf this a) (\<lambda>usdValueOf'.
      let output =
            [(''address'', address this),
             (''user'', a),
             (''pool'', descriptor this),
             (''isActive'', JBool (isActive ext this)),
             (''stakedBalance'', BigNumber stakedBalance'),
             (''unstakedBalance'', BigNumber unstakedBalance'),
             (''earnedRewards'', BigNumber earnedRewards'),
             (''percentageOwnership'', JStr percentageOwnership'),
             (''usdValueOf'', BigNumber usdValueOf')]
      in io_return
           (JObj (if truthy underlyingBalanceOf'
                  then output @ [(''underlyingBalanceOf'', underlyingBalanceOf')]
                  else output)))))))))"

subsection \<open>approveAndStake\<close>

text \<open>
  \<^verbatim>\<open>if (!amnt || amnt.isZero()) amnt = balance\<close>: a falsy argument and a zero BigNumber are
  replaced by the balance; a truthy value that is no BigNumber has no \<^verbatim>\<open>isZero\<close>.
  The rest of the method:
  \<^verbatim>\<open>
  if (!ethers.Signer.isSigner(this.provider)) { throw new Error('No signer'); };
  const me = this.provider.getAddress();
  let [allowance, balance] = await Promise.all([
    this.lptoken.allowances(me, this.address), this.lptoken.balanceOf(me)]);
  ...
  if (balance.lt(amnt)) return;
  let approveTx;
  if (approveForever || allowance.lt(balance)) {
    approveTx = this.lptoken.approve(
      this.address, approveForever ? ethers.constants.MaxUint256 : amnt);
  }
  let stakeTx = this.stake(amnt);
  await approveTx;
  return await stakeTx;
  \<close>
\<close>

definition default_amnt :: "jsval \<Rightarrow> int \<Rightarrow> error + int" where
  "default_amnt amnt balance =
     (if \<not> truthy amnt then Inr balance
      else case amnt of
             BigNumber n \<Rightarrow> Inr (if n = 0 then balance else n)
           | _ \<Rightarrow> Inl TypeError)"

definition approveAndStake :: "rpool \<Rightarrow> jsval \<Rightarrow> jsval \<Rightarrow> jsval io" where
  "approveAndStake this amnt approveForever =
     (if \<not> isSigner (provider this) then io_throw NoSigner
      else
        let me = getAddress (provider this) in
        io_bind (token_allowances LpToken (lptoken this) me (address this)) (\<lambda>allowance.
        io_bind (token_balanceOf LpToken (lptoken this) me) (\<lambda>balance.
        io_bind (io_lift (default_amnt amnt balance)) (\<lambda>amnt'.
        if balance < amnt' then io_return Undefined
        else
          io_bind (if truthy approveForever \<or> allowance < balance
                   then token_approve LpToken (lptoken this) (address this)
                          (if truthy approveForever then MaxUint256 else amnt')
                   else io_return ()) (\<lambda>approveTx.
          stake this amnt')))))"

section \<open>The library's fixed-point formatter\<close>

text \<open>Decimal digits of a natural number, and the last \<open>k\<close> digits padded with zeros.\<close>

definition digit_char :: "nat \<Rightarrow> char" where
  "digit_char d = ''0123456789'' ! (d mod 10)"

fun decimal :: "nat \<Rightarrow> string" where
  "decimal n = (if n < 10 then [digit_char n] else decimal (n div 10) @ [digit_char (n mod 10)])"

declare decimal.simps [simp del]

fun fraction_digits :: "nat \<Rightarrow> nat \<Rightarrow> string" where
  "fraction_digits k n =
     (if k = 0 then [] else fraction_digits (k - 1) (n div 10) @ [digit_char (n mod 10)])"

declare fraction_digits.simps [simp del]

definition strip_zeros :: "string \<Rightarrow> string" where
  "strip_zeros s =
     (let t = rev (dropWhile (\<lambda>c. c = CHR ''0'') (rev s)) in if t = [] then ''0'' else t)"

text \<open>
  Modelled from the spec: \<^verbatim>\<open>formatUnits\<close> belongs to the contract-binding library, not to
  this repository; the spec lists it as "a fixed-point formatting utility producing a decimal
  string at a specified precision". The model writes the whole part, a point and the
  fraction padded to the precision, with the fraction's trailing zeros dropped down to one
  digit. \<open>percentageOfTotal\<close> takes the formatter from \<open>externals\<close>, and what is proved about
  it holds for every formatter; this one serves to run it on concrete amounts.
\<close>

definition formatUnits :: "int \<Rightarrow> nat \<Rightarrow> string" where
  "formatUnits v decimals =
     (let n = nat \<bar>v\<bar>;
          multiplier = 10 ^ decimals;
          whole = decimal (n div multiplier);
          s = (if decimals = 0 then whole
               else whole @ ''.'' @ strip_zeros (fraction_digits decimals (n mod multiplier)))
      in if v < 0 then ''-'' @ s else s)"

section \<open>Descriptors and a worked pool\<close>


text \<open>
  A concrete setting: a wallet \<open>0xMe\<close> holding 100 staked-asset tokens with an allowance of
  40 towards the pool, a contract with total supply 4 in which every address has staked 1 and
  earned 7, and a staked-asset adapter without share conversion.
\<close>

definition ex_signer :: provider where
  "ex_signer = \<lparr>isSigner = True, getAddress = JStr ''0xMe''\<rparr>"

definition ex_readonly :: provider where
  "ex_readonly = \<lparr>isSigner = False, getAddress = Undefined\<rparr>"

definition ex_token :: token where
  "ex_token =
     \<lparr>tk_balanceOf = (\<lambda>a. if a = JStr ''0xMe'' then 100 else 0),
      tk_allowances = (\<lambda>owner spender. 40),
      tk_usdValueOf = (\<lambda>n. 2 * n),
      tk_calcShare = None,
      tk_underlyingBalanceOf = False\<rparr>"

definition ex_handle :: "jsval \<Rightarrow> abi \<Rightarrow> provider \<Rightarrow> handle" where
  "ex_handle a abi prov =
     \<lparr>address = a, provider = prov,
      q_balanceOf = (\<lambda>a. 1), q_totalSupply = 4,
      q_earned = Some (\<lambda>a. 7), q_stake = (\<lambda>n. JStr ''receipt'')\<rparr>"

definition ex_externals :: externals where
  "ex_externals =
     \<lparr>Contract = ex_handle,
      Token_fromAsset = (\<lambda>asset prov. ex_token),
      isAddressActive = (\<lambda>a. a = JStr ''0xPool''),
      utils_formatUnits = formatUnits\<rparr>"

definition ex_fields :: "(string \<times> jsval) list" where
  "ex_fields =
     [(''address'', JStr ''0xPool''),
      (''asset'', JObj [(''name'', JStr ''LP'')]),
      (''rewardAsset'', JObj [(''name'', JStr ''FARM'')])]"

definition ex_harvest_descriptor :: jsval where
  "ex_harvest_descriptor = JObj ex_fields"

definition ex_auto_descriptor :: jsval where
  "ex_auto_descriptor = JObj (ex_fields @ [(''type'', JStr ''autocompounding'')])"

definition ex_spec_descriptor :: jsval where
  "ex_spec_descriptor =
     JObj (ex_fields @ [(''poolType'', JStr ''auto-compounding''),
                        (''type'', JStr ''auto-compounding'')])"

text \<open>The pool object \<open>fromPool\<close> builds from \<open>ex_harvest_descriptor\<close> for a connection.\<close>

definition ex_pool_of :: "provider \<Rightarrow> rpool" where
  "ex_pool_of prov =
     \<lparr>address = JStr ''0xPool'', provider = prov,
      q_balanceOf = (\<lambda>a. 1), q_totalSupply = 4,
      q_earned = Some (\<lambda>a. 7), q_stake = (\<lambda>n. JStr ''receipt''),
      name = JStr ''LP'',
      descriptor = ex_harvest_descriptor,
      lptoken = ex_token,
      reward = ex_token,
      unstakedBalance = token_balanceOf LpToken ex_token,
      stakedBalance = balanceOf (ex_handle (JStr ''0xPool'') REWARDS_ABI prov),
      underlyingBalanceOf = None,
      earnedRewards = earned (ex_handle (JStr ''0xPool'') REWARDS_ABI prov)\<rparr>"

definition ex_pool :: rpool where
  "ex_pool = ex_pool_of ex_signer"

text \<open>A signer whose wallet holds none of the staked asset.\<close>

definition ex_empty_signer :: provider where
  "ex_empty_signer = \<lparr>isSigner = True, getAddress = JStr ''0xEmpty''\<rparr>"


section \<open>Basic facts\<close>

lemmas io_defs = io_return_def io_throw_def io_bind_def io_lift_def emit_def call_member_def

lemmas call_defs = balanceOf_def totalSupply_def earned_def stake_def token_balanceOf_def
  token_allowances_def token_usdValueOf_def token_calcShare_def token_approve_def

lemmas ctor_defs = fromPool_def HarvestRewardsPool_def AutoCompoundingRewardsPool_def
  RewardsPool_def sum_bind_def Let_def handle.defs rpool.defs

lemmas ex_defs = ex_signer_def ex_readonly_def ex_empty_signer_def ex_token_def ex_handle_def ex_externals_def
  ex_fields_def ex_harvest_descriptor_def ex_auto_descriptor_def ex_spec_descriptor_def
  ex_pool_of_def ex_pool_def

lemma sum_bind_Inr: "sum_bind m f = Inr y \<Longrightarrow> \<exists>x. m = Inr x \<and> f x = Inr y"
  by (cases m) (simp_all add: sum_bind_def)



lemma tdiv_nonneg: "0 \<le> a \<Longrightarrow> 0 < b \<Longrightarrow> tdiv a b = a div b"
  by (cases "a = 0") (simp_all add: tdiv_def)

lemma formatUnits_pos:
  "0 \<le> v \<Longrightarrow> 0 < d \<Longrightarrow>
     formatUnits v d =
       decimal (nat v div 10 ^ d) @ ''.'' @ strip_zeros (fraction_digits d (nat v mod 10 ^ d))"
  by (simp add: formatUnits_def Let_def)

lemmas format_eval = formatUnits_pos decimal.simps fraction_digits.simps strip_zeros_def
  digit_char_def

subsection \<open>What the constructors set\<close>


lemma RewardsPool_fields:
  assumes "RewardsPool ext pool abi prov = Inr this"
  shows "stakedBalance this = balanceOf this"
    and "unstakedBalance this = token_balanceOf LpToken (lptoken this)"
    and "earnedRewards this = None"
    and "descriptor this = pool"
    and "underlyingBalanceOf this =
          (if tk_underlyingBalanceOf (lptoken this)
           then Some (\<lambda>a passthrough.
                  io_bind (balanceOf this a) (\<lambda>balance.
                    token_calcShare LpToken (lptoken this) balance passthrough))
           else None)"
    and "\<exists>addr. js_get pool ''address'' = Inr addr \<and>
           handle.truncate this = Contract ext addr abi prov"
  using assms
  by (auto simp: RewardsPool_def Let_def handle.defs rpool.defs balanceOf_def fun_eq_iff
      dest!: sum_bind_Inr)

lemma AutoCompounding_fields:
  assumes "AutoCompoundingRewardsPool ext pool prov = Inr this"
  shows "earnedRewards this = Some (\<lambda>_. io_return 0)"
    and "stakedBalance this = balanceOf this"
  using assms RewardsPool_fields(1)
  by (auto simp: AutoCompoundingRewardsPool_def balanceOf_def dest!: sum_bind_Inr)

lemma Harvest_fields:
  assumes "HarvestRewardsPool ext pool prov = Inr this"
  shows "earnedRewards this = earned this"
    and "stakedBalance this = balanceOf this"
    and "\<exists>addr. js_get pool ''address'' = Inr addr \<and>
           handle.truncate this = Contract ext addr REWARDS_ABI prov"
  using assms RewardsPool_fields(1,6)
  by (auto simp: HarvestRewardsPool_def balanceOf_def earned_def handle.defs dest!: sum_bind_Inr)

lemma fromPool_cases:
  assumes "fromPool ext pool prov = Inr this"
  shows "AutoCompoundingRewardsPool ext pool prov = Inr this \<or>
         HarvestRewardsPool ext pool prov = Inr this"
  using assms by (auto simp: fromPool_def dest!: sum_bind_Inr split: if_splits)



lemma fromPool_stakedBalance:
  assumes "fromPool ext pool prov = Inr this"
  shows "stakedBalance this = balanceOf this"
  using fromPool_cases [OF assms] AutoCompounding_fields(2) Harvest_fields(2) by blast

lemma fromPool_ex: "fromPool ex_externals ex_harvest_descriptor prov = Inr (ex_pool_of prov)"
  by (simp add: ctor_defs ex_defs call_defs)

subsection \<open>approveAndStake, branch by branch\<close>

lemma approveAndStake_signer:
  assumes "isSigner (provider this)"
    and "default_amnt amnt (tk_balanceOf (lptoken this) (getAddress (provider this))) = Inr n"
  shows "approveAndStake this amnt approveForever tr =
     (let me = getAddress (provider this);
          allowance = tk_allowances (lptoken this) me (address this);
          balance = tk_balanceOf (lptoken this) me;
          reads = [Token_allowances LpToken me (address this), Token_balanceOf LpToken me]
      in if balance < n then (Inr Undefined, tr @ reads)
         else (Inr (q_stake this n),
               tr @ reads @
               (if truthy approveForever \<or> allowance < balance
                then [Tx_approve LpToken (address this)
                        (if truthy approveForever then MaxUint256 else n)]
                else []) @
               [Tx_stake n]))"
  using assms
  by (simp add: approveAndStake_def token_allowances_def token_balanceOf_def token_approve_def
      stake_def io_lift_def io_return_def io_bind_def emit_def Let_def)


lemma ex_pool_facts:
  "isSigner (provider ex_pool)"
  "getAddress (provider ex_pool) = JStr ''0xMe''"
  "address ex_pool = JStr ''0xPool''"
  "tk_balanceOf (lptoken ex_pool) (JStr ''0xMe'') = 100"
  "tk_allowances (lptoken ex_pool) (JStr ''0xMe'') (JStr ''0xPool'') = 40"
  "q_stake ex_pool n = JStr ''receipt''"
  "q_totalSupply ex_pool = 4"
  by (simp_all add: ex_defs)


section \<open>The summary record\<close>

text \<open>
  Whenever \<open>summary\<close> returns, the record has the property \<open>underlyingBalanceOf\<close>: the
  placeholder \<^verbatim>\<open>{}\<close> that stands for "no conversion" is an object, hence truthy, and
  passes the test \<^verbatim>\<open>if (underlyingBalanceOf)\<close> just as a BigNumber does.
\<close>

lemma summary_keeps_underlying:
  assumes "summary ext this a tr = (Inr v, tr')"
  shows "has_property v ''underlyingBalanceOf''"
  using assms
  by (auto simp: summary_def Let_def io_bind_def io_return_def has_property_def
      split: sum.splits prod.splits option.splits if_splits)

lemma ex_percentageOwnership:
  "percentageOwnership ex_externals ex_pool a tr =
     (Inr ''25.0%'', tr @ [Call_balanceOf a, Call_totalSupply])"
  by (simp add: percentageOwnership_def percentageOfTotal_def balanceOf_def totalSupply_def
      bn_div_def tdiv_def WeiPerEther_def io_defs ex_defs format_eval)

lemma ex_usdValueOf:
  "usdValueOf ex_pool a tr =
     (Inr 16, tr @ [Call_balanceOf a, Call_earned a, Token_usdValueOf LpToken 1,
                    Token_usdValueOf Reward 7])"
  by (simp add: usdValueOf_def call_defs io_defs ex_defs)

text \<open>
  C1 (the summary omits \<open>underlyingBalanceOf\<close> when the staked-asset adapter lacks share
  conversion) fails on the code. The adapter of \<open>ex_pool\<close> has no conversion and the pool no
  member \<open>underlyingBalanceOf\<close>, yet the summary of \<open>0xUser\<close> carries the property, bound to
  the empty object.
\<close>

theorem summary_without_conversion_has_field:
  "tk_underlyingBalanceOf (lptoken ex_pool) = False \<and>
   underlyingBalanceOf ex_pool = None \<and>
   summary ex_externals ex_pool (JStr ''0xUser'') [] =
     (Inr (JObj
        [(''address'', JStr ''0xPool''),
         (''user'', JStr ''0xUser''),
         (''pool'', ex_harvest_descriptor),
         (''isActive'', JBool True),
         (''stakedBalance'', BigNumber 1),
         (''unstakedBalance'', BigNumber 0),
         (''earnedRewards'', BigNumber 7),
         (''percentageOwnership'', JStr ''25.0%''),
         (''usdValueOf'', BigNumber 16),
         (''underlyingBalanceOf'', JObj [])]),
      [Call_balanceOf (JStr ''0xUser''), Token_balanceOf LpToken (JStr ''0xUser''),
       Call_earned (JStr ''0xUser''),
       Call_balanceOf (JStr ''0xUser''), Call_totalSupply,
       Call_balanceOf (JStr ''0xUser''), Call_earned (JStr ''0xUser''),
       Token_usdValueOf LpToken 1, Token_usdValueOf Reward 7])"
proof -
  have 1: "tk_underlyingBalanceOf (lptoken ex_pool) = False" "underlyingBalanceOf ex_pool = None"
    by (simp_all add: ex_defs)
  have 2: "stakedBalance ex_pool a tr = (Inr 1, tr @ [Call_balanceOf a])" for a tr
    by (simp add: ex_defs balanceOf_def emit_def)
  have 3: "unstakedBalance ex_pool (JStr ''0xUser'') tr =
             (Inr 0, tr @ [Token_balanceOf LpToken (JStr ''0xUser'')])" for tr
    by (simp add: ex_defs token_balanceOf_def emit_def)
  have 4: "call_member (earnedRewards ex_pool) a tr = (Inr 7, tr @ [Call_earned a])" for a tr
    by (simp add: ex_defs earned_def call_member_def emit_def)
  have 5: "address ex_pool = JStr ''0xPool''" "descriptor ex_pool = ex_harvest_descriptor"
    "isActive ex_externals ex_pool"
    by (simp_all add: isActive_def ex_pool_def ex_pool_of_def ex_externals_def)
  show ?thesis
    by (simp add: summary_def Let_def io_bind_def io_return_def 1 2 3 4 5
        ex_percentageOwnership ex_usdValueOf)
qed

section \<open>The factory\<close>








section \<open>Percentages\<close>

text \<open>
  C8: \<open>percentageOfTotal a\<close> is \<open>0%\<close> for a zero amount, without any call; otherwise it
  reads the total supply and is \<open>0%\<close> when that is zero; otherwise it is the first five
  characters of the quotient \<open>a * 10^18 / total\<close> (truncated) formatted with 16 decimals,
  followed by \<open>%\<close>. No branch divides by zero: the outcome is never a numeric fault. This
  holds for every formatter \<open>utils_formatUnits\<close>.
\<close>

theorem percentageOfTotal_result:
  "percentageOfTotal ext this a tr =
     (if a = 0 then (Inr ''0%'', tr)
      else if q_totalSupply this = 0 then (Inr ''0%'', tr @ [Call_totalSupply])
      else (Inr (take 5 (utils_formatUnits ext (tdiv (a * 10 ^ 18) (q_totalSupply this)) 16)
                 @ ''%''),
            tr @ [Call_totalSupply]))
   \<and> fst (percentageOfTotal ext this a tr) \<noteq> Inl NumericFault"
  by (simp add: percentageOfTotal_def totalSupply_def bn_div_def io_lift_def io_return_def
      io_bind_def emit_def WeiPerEther_def)

theorem percentageOfTotal_result_witness:
  "percentageOfTotal ex_externals ex_pool 0 [] = (Inr ''0%'', []) \<and>
   percentageOfTotal ex_externals (ex_pool\<lparr>q_totalSupply := 0\<rparr>) 5 [] =
     (Inr ''0%'', [Call_totalSupply]) \<and>
   percentageOfTotal ex_externals (ex_pool\<lparr>q_totalSupply := 3\<rparr>) 1 [] =
     (Inr ''33.33%'', [Call_totalSupply]) \<and>
   percentageOfTotal ex_externals ex_pool 4 [] = (Inr ''100.0%'', [Call_totalSupply])"
proof -
  have f: "utils_formatUnits ex_externals = formatUnits"
    by (simp add: ex_externals_def)
  have 1: "formatUnits (tdiv 1000000000000000000 3) 16 = ''33.3333333333333333''"
    by (simp add: tdiv_def format_eval)
  have 2: "formatUnits (tdiv 4000000000000000000 4) 16 = ''100.0''"
    by (simp add: tdiv_def format_eval)
  show ?thesis
    using percentageOfTotal_result [of ex_externals ex_pool 0 "[]"]
      percentageOfTotal_result [of ex_externals "ex_pool\<lparr>q_totalSupply := 0\<rparr>" 5 "[]"]
      percentageOfTotal_result [of ex_externals "ex_pool\<lparr>q_totalSupply := 3\<rparr>" 1 "[]"]
      percentageOfTotal_result [of ex_externals ex_pool 4 "[]"]
    by (simp add: f 1 2 ex_pool_facts)
qed

text \<open>
  C9: on a pool built by \<open>fromPool\<close>, \<open>percentageOwnership a\<close> is \<open>percentageOfTotal\<close> applied
  to what \<open>stakedBalance a\<close> resolves to, \<open>stakedBalance\<close> being the member the constructor
  set to the contract's \<open>balanceOf\<close>.
\<close>

theorem percentageOwnership_stakedBalance:
  assumes "fromPool ext pool prov = Inr this"
  shows "percentageOwnership ext this a =
           io_bind (stakedBalance this a) (percentageOfTotal ext this)"
  by (simp add: percentageOwnership_def fromPool_stakedBalance [OF assms])

theorem percentageOwnership_stakedBalance_witness:
  "fromPool ex_externals ex_harvest_descriptor ex_signer = Inr ex_pool \<and>
   percentageOwnership ex_externals ex_pool (JStr ''0xUser'') =
     io_bind (stakedBalance ex_pool (JStr ''0xUser'')) (percentageOfTotal ex_externals ex_pool) \<and>
   percentageOwnership ex_externals ex_pool (JStr ''0xUser'') [] =
     (Inr ''25.0%'', [Call_balanceOf (JStr ''0xUser''), Call_totalSupply])"
proof -
  have b: "fromPool ex_externals ex_harvest_descriptor ex_signer = Inr ex_pool"
    by (simp add: fromPool_ex ex_pool_def)
  have c: "percentageOwnership ex_externals ex_pool (JStr ''0xUser'') [] =
      (Inr ''25.0%'', [Call_balanceOf (JStr ''0xUser''), Call_totalSupply])"
    using ex_percentageOwnership [of "JStr ''0xUser''" "[]"] by simp
  show ?thesis
    using b percentageOwnership_stakedBalance [OF b, of "JStr ''0xUser''"] c
    by blast
qed

section \<open>Approve and stake\<close>





text \<open>
  C6: when the connection is no signer, \<open>approveAndStake\<close> throws "No signer" and the trace is
  untouched: no read and no transaction was issued.
\<close>

theorem approveAndStake_no_signer:
  assumes "\<not> isSigner (provider this)"
  shows "approveAndStake this amnt approveForever tr = (Inl NoSigner, tr)"
  using assms by (simp add: approveAndStake_def io_throw_def)

theorem approveAndStake_no_signer_witness:
  "\<not> isSigner (provider (ex_pool_of ex_readonly)) \<and>
   approveAndStake (ex_pool_of ex_readonly) (BigNumber 10) Undefined [] = (Inl NoSigner, [])"
proof -
  have s: "\<not> isSigner (provider (ex_pool_of ex_readonly))"
    by (simp add: ex_defs)
  show ?thesis
    using s approveAndStake_no_signer [OF s, of "BigNumber 10" Undefined "[]"] by simp
qed

text \<open>
  C7: past the signer check, with the amount settled as \<open>n\<close> and the balance not below it,
  the transactions submitted are: an approval exactly when \<open>approveForever\<close> is set or the
  allowance is below the wallet balance, for the max-uint value if \<open>approveForever\<close> is set
  and for \<open>n\<close> otherwise; then the stake of \<open>n\<close>.
\<close>

theorem approveAndStake_approval:
  assumes "isSigner (provider this)"
    and "default_amnt amnt (tk_balanceOf (lptoken this) (getAddress (provider this))) = Inr n"
    and "\<not> tk_balanceOf (lptoken this) (getAddress (provider this)) < n"
  shows "filter is_tx (snd (approveAndStake this amnt approveForever tr)) =
           filter is_tx tr @
           (if truthy approveForever \<or>
               tk_allowances (lptoken this) (getAddress (provider this)) (address this)
                 < tk_balanceOf (lptoken this) (getAddress (provider this))
            then [Tx_approve LpToken (address this)
                    (if truthy approveForever then MaxUint256 else n)]
            else []) @ [Tx_stake n]"
  using approveAndStake_signer [OF assms(1,2)] assms(3) by (simp add: Let_def)

theorem approveAndStake_approval_witness:
  "isSigner (provider ex_pool) \<and>
   default_amnt (BigNumber 30) (tk_balanceOf (lptoken ex_pool) (getAddress (provider ex_pool))) =
     Inr 30 \<and>
   \<not> tk_balanceOf (lptoken ex_pool) (getAddress (provider ex_pool)) < 30 \<and>
   filter is_tx (snd (approveAndStake ex_pool (BigNumber 30) Undefined [])) =
     [Tx_approve LpToken (JStr ''0xPool'') 30, Tx_stake 30] \<and>
   filter is_tx (snd (approveAndStake ex_pool (BigNumber 30) (JBool True) [])) =
     [Tx_approve LpToken (JStr ''0xPool'') MaxUint256, Tx_stake 30]"
proof -
  have s: "isSigner (provider ex_pool)"
    and d: "default_amnt (BigNumber 30)
              (tk_balanceOf (lptoken ex_pool) (getAddress (provider ex_pool))) = Inr 30"
    and b: "\<not> tk_balanceOf (lptoken ex_pool) (getAddress (provider ex_pool)) < 30"
    by (simp_all add: ex_pool_facts default_amnt_def)
  show ?thesis
    using s d b approveAndStake_approval [OF s d b, of Undefined "[]"]
      approveAndStake_approval [OF s d b, of "JBool True" "[]"]
    by (simp add: ex_pool_facts)
qed



end
